theory Spec2Isabelle
  imports Complex_Main "HOL-Library.Multiset" "HOL-Library.Sublist"
begin

section \<open>Python values, dictionaries and exceptions\<close>

text \<open>
  The collector of \<^verbatim>\<open>src/data/data_collection.py\<close> works on decoded JSON: dictionaries
  from string keys to scalars. A scalar is \<^verbatim>\<open>None\<close>, a boolean, an integer or a string
  (JSON floats, arrays and nested objects are not part of this model). Strings are
  ASCII strings, and an integer is one the JSON decoder can produce (at most 4300
  decimal digits). An exception is a value of type \<open>error\<close> (raised while collecting)
  or \<open>db_error\<close> (raised while writing to the store, where \<open>IntegerOverflow\<close> is the
  OverflowError of \<^verbatim>\<open>sqlite3\<close> for an integer outside 64 bits); a function that can
  raise returns a sum with the exception on the left.
\<close>

datatype error = TypeError | AttributeError | ValueError | HTTPError | OverflowError

datatype db_error = IntegrityError | IntegerOverflow

datatype jval = JNull | JBool bool | JInt int | JStr string

type_synonym payload = "string \<rightharpoonup> jval"

definition get_or :: "payload \<Rightarrow> string \<Rightarrow> jval \<Rightarrow> jval" where
  \<comment> \<open>\<^verbatim>\<open>d.get(k, default)\<close>\<close>
  "get_or d k dflt = (case d k of None \<Rightarrow> dflt | Some v \<Rightarrow> v)"

definition get :: "payload \<Rightarrow> string \<Rightarrow> jval" where
  \<comment> \<open>\<^verbatim>\<open>d.get(k)\<close>\<close>
  "get d k = get_or d k JNull"

fun truthy :: "jval \<Rightarrow> bool" where
  "truthy JNull = False"
| "truthy (JBool b) = b"
| "truthy (JInt n) = (n \<noteq> 0)"
| "truthy (JStr s) = (s \<noteq> [])"

subsection \<open>Strings\<close>

definition lower_char :: "char \<Rightarrow> char" where
  "lower_char c =
     (case map_of (zip ''ABCDEFGHIJKLMNOPQRSTUVWXYZ'' ''abcdefghijklmnopqrstuvwxyz'') c of
        None \<Rightarrow> c
      | Some l \<Rightarrow> l)"

definition lower :: "string \<Rightarrow> string" where
  \<comment> \<open>\<^verbatim>\<open>s.lower()\<close> on ASCII\<close>
  "lower s = map lower_char s"

fun starts_with :: "string \<Rightarrow> string \<Rightarrow> bool" where
  "starts_with s [] = True"
| "starts_with [] (p # ps) = False"
| "starts_with (c # s) (p # ps) = (c = p \<and> starts_with s ps)"

fun str_in :: "string \<Rightarrow> string \<Rightarrow> bool" where
  \<comment> \<open>\<^verbatim>\<open>k in s\<close> for two strings\<close>
  "str_in k [] = (k = [])"
| "str_in k (c # s) = (starts_with (c # s) k \<or> str_in k s)"

fun any :: "bool list \<Rightarrow> bool" where
  \<comment> \<open>\<^verbatim>\<open>any(...)\<close> over the values a generator yields\<close>
  "any [] = False"
| "any (b # bs) = (if b then True else any bs)"

subsection \<open>\<^verbatim>\<open>int(x)\<close>\<close>

definition is_space :: "char \<Rightarrow> bool" where
  \<comment> \<open>the ASCII characters \<^verbatim>\<open>int\<close> strips: space, tab, newline, vertical tab, form feed
      and carriage return\<close>
  "is_space c = (let n = (of_char c :: nat) in n = 32 \<or> (9 \<le> n \<and> n \<le> 13))"

definition is_digit :: "char \<Rightarrow> bool" where
  "is_digit c = (let n = (of_char c :: nat) in 48 \<le> n \<and> n \<le> 57)"

definition digit_of :: "char \<Rightarrow> int" where
  "digit_of c = int (of_char c) - 48"

definition strip :: "string \<Rightarrow> string" where
  "strip s = rev (dropWhile is_space (rev (dropWhile is_space s)))"

fun digits_value :: "int \<Rightarrow> bool \<Rightarrow> string \<Rightarrow> int option" where
  \<comment> \<open>decimal digits, single underscores allowed between two digits\<close>
  "digits_value acc prev [] = (if prev then Some acc else None)"
| "digits_value acc prev (c # cs) =
     (if is_digit c then digits_value (acc * 10 + digit_of c) True cs
      else if c = CHR ''_'' \<and> prev then
        (case cs of [] \<Rightarrow> None
         | d # ds \<Rightarrow> if is_digit d then digits_value acc False cs else None)
      else None)"

definition int_of_string :: "string \<Rightarrow> int option" where
  \<comment> \<open>\<open>None\<close> is a ValueError: an invalid literal, or more than 4300 digits\<close>
  "int_of_string s =
     (if 4300 < length (filter is_digit (strip s)) then None
      else
        (case strip s of
           [] \<Rightarrow> None
         | c # cs \<Rightarrow>
             if c = CHR ''-'' then map_option uminus (digits_value 0 False cs)
             else if c = CHR ''+'' then digits_value 0 False cs
             else digits_value 0 False (c # cs)))"

fun py_int :: "jval \<Rightarrow> error + int" where
  "py_int JNull = Inl TypeError"
| "py_int (JBool b) = Inr (if b then 1 else 0)"
| "py_int (JInt n) = Inr n"
| "py_int (JStr s) = (case int_of_string s of None \<Rightarrow> Inl ValueError | Some n \<Rightarrow> Inr n)"

subsection \<open>\<^verbatim>\<open>str(x)\<close> and f-strings\<close>

definition digit_char :: "nat \<Rightarrow> char" where
  "digit_char d = ''0123456789'' ! (d mod 10)"

fun str_of_nat :: "nat \<Rightarrow> string" where
  "str_of_nat n = (if n < 10 then [digit_char n] else str_of_nat (n div 10) @ [digit_char (n mod 10)])"

definition str_of_int :: "int \<Rightarrow> string" where
  "str_of_int i = (if i < 0 then CHR ''-'' # str_of_nat (nat (- i)) else str_of_nat (nat i))"

fun py_str :: "jval \<Rightarrow> string" where
  \<comment> \<open>what \<^verbatim>\<open>f"{x}"\<close> renders\<close>
  "py_str JNull = ''None''"
| "py_str (JBool b) = (if b then ''True'' else ''False'')"
| "py_str (JInt n) = str_of_int n"
| "py_str (JStr s) = s"

definition strip_chars :: "string \<Rightarrow> string \<Rightarrow> string" where
  \<comment> \<open>\<^verbatim>\<open>s.strip(chars)\<close>\<close>
  "strip_chars chars s =
     rev (dropWhile (\<lambda>c. c \<in> set chars) (rev (dropWhile (\<lambda>c. c \<in> set chars) s)))"

section \<open>Normalizer and scorer\<close>

definition famous_artists :: "string list" where
  "famous_artists =
     [''Leonardo da Vinci'', ''Michelangelo'', ''Vincent van Gogh'',
      ''Pablo Picasso'', ''Claude Monet'', ''Rembrandt'', ''Auguste Rodin'']"

definition calculate_significance_score :: "payload \<Rightarrow> error + real" where
  \<comment> \<open>\<^verbatim>\<open>_calculate_significance_score\<close>: \<^verbatim>\<open>famous in artist\<close> raises TypeError and
      \<^verbatim>\<open>object_date.lower()\<close> raises AttributeError when the field is not a string\<close>
  "calculate_significance_score data =
     (case get_or data ''artistDisplayName'' (JStr []) of
        JStr artist \<Rightarrow>
          (let score = 5 + (if any (map (\<lambda>famous. str_in famous artist) famous_artists) then 2 else 0)
           in case get_or data ''objectDate'' (JStr []) of
                JStr object_date \<Rightarrow>
                  (let score = score + (if any (map (\<lambda>period. str_in period (lower object_date))
                                                    [''bc'', ''century'', ''dynasty''])
                                        then 1.5 else 0);
                       score = score + (if truthy (get data ''isPublicDomain'') then 0.5 else 0);
                       score = score + (if truthy (get data ''primaryImage'') then 0.5 else 0);
                       score = score + (if truthy (get data ''isOnView'') then 0.5 else 0)
                   in Inr (min score 10))
              | _ \<Rightarrow> Inl AttributeError)
      | _ \<Rightarrow> Inl TypeError)"

definition accepted :: "payload \<Rightarrow> bool" where
  \<comment> \<open>the filter of \<^verbatim>\<open>_process_met_batch\<close>: objects without a title or not in the public
      domain are skipped\<close>
  "accepted data = (\<not> (\<not> truthy (get data ''title'') \<or> \<not> truthy (get data ''isPublicDomain'')))"

definition float_overflow :: "int \<Rightarrow> bool" where
  \<comment> \<open>\<^verbatim>\<open>a / 100\<close> raises OverflowError when the quotient, rounded to the nearest float,
      leaves the range of the floats\<close>
  "float_overflow a \<longleftrightarrow> 100 * (2 ^ 1024 - 2 ^ 970) \<le> \<bar>a\<bar>"

definition unesco_significance :: "payload \<Rightarrow> error + real" where
  \<comment> \<open>\<^verbatim>\<open>min(9.0 + (2024 - int(site.get('date_inscribed', 2024))) / 100, 10.0)\<close>, in real
      arithmetic where the code computes the nearest floats\<close>
  "unesco_significance site =
     (case py_int (get_or site ''date_inscribed'' (JInt 2024)) of
        Inl e \<Rightarrow> Inl e
      | Inr y \<Rightarrow>
          if float_overflow (2024 - y) then Inl OverflowError
          else Inr (min (9 + real_of_int (2024 - y) / 100) 10))"

definition registry_formula :: "int \<Rightarrow> int \<Rightarrow> real" where
  \<comment> \<open>the formula in the words of the specification, with the current year a parameter\<close>
  "registry_formula current_year inscription_year =
     min (9 + real_of_int (current_year - inscription_year) / 100) 10"

definition assess_threat_level :: "payload \<Rightarrow> error + string" where
  \<comment> \<open>\<^verbatim>\<open>_assess_threat_level\<close>: \<^verbatim>\<open>data.get('country', '').lower()\<close> raises
      AttributeError when the field is not a string\<close>
  "assess_threat_level data =
     (case get_or data ''country'' (JStr []) of
        JStr country \<Rightarrow>
          (let location = lower country in
           if any (map (\<lambda>risk_loc. str_in (lower risk_loc) location)
                       [''Syria'', ''Iraq'', ''Afghanistan'', ''Yemen'', ''Libya'',
                        ''Ukraine'', ''Myanmar'', ''Mali''])
           then Inr ''High''
           else if truthy (get_or data ''isOnView'' (JBool False)) then Inr ''Low''
           else Inr ''Medium'')
      | _ \<Rightarrow> Inl AttributeError)"

section \<open>Threat classifier\<close>

definition high_severity_keywords :: "string list" where
  "high_severity_keywords = [''destroyed'', ''burned'', ''demolished'', ''stolen'', ''looted'']"

definition medium_severity_keywords :: "string list" where
  "medium_severity_keywords = [''damaged'', ''vandalized'', ''threatened'', ''at risk'']"

definition article_content :: "payload \<Rightarrow> string" where
  \<comment> \<open>\<^verbatim>\<open>f"{article.get('title', '')} {article.get('description', '')}".lower()\<close>\<close>
  "article_content article =
     lower (py_str (get_or article ''title'' (JStr [])) @ '' '' @
            py_str (get_or article ''description'' (JStr [])))"

definition assess_threat_severity :: "payload \<Rightarrow> string" where
  "assess_threat_severity article =
     (let content = article_content article in
      if any (map (\<lambda>keyword. str_in keyword content) high_severity_keywords) then ''High''
      else if any (map (\<lambda>keyword. str_in keyword content) medium_severity_keywords) then ''Medium''
      else ''Low'')"

section \<open>Heritage items and the store\<close>

record HeritageItem =
  name :: jval
  location :: string
  type :: jval
  period :: jval
  significance_score :: real
  threat_level :: string
  last_updated :: nat
  source :: string
  metadata :: payload

text \<open>
  The dataclass declares \<^verbatim>\<open>name: str\<close>, but Python does not check it: the collectors
  pass on whatever the JSON holds, so \<open>name\<close>, \<open>type\<close> and \<open>period\<close> are JSON scalars.
  A row of table \<^verbatim>\<open>heritage_items\<close> has the item's columns and \<^verbatim>\<open>hash_id\<close>; the
  \<^verbatim>\<open>metadata\<close> column holds \<^verbatim>\<open>json.dumps(item.metadata)\<close>, kept here as the dictionary
  it encodes. The autoincremented \<^verbatim>\<open>id\<close> is the position of the row.
\<close>

record heritage_row =
  row_name :: jval
  row_location :: string
  row_type :: jval
  row_period :: jval
  row_significance_score :: real
  row_threat_level :: string
  row_last_updated :: nat
  row_source :: string
  row_metadata :: payload
  row_hash_id :: string

definition item_data :: "HeritageItem \<Rightarrow> string" where
  \<comment> \<open>\<^verbatim>\<open>f"{item.name}_{item.location}_{item.source}"\<close>\<close>
  "item_data item = py_str (name item) @ ''_'' @ location item @ ''_'' @ source item"

definition hash_id :: "(string \<Rightarrow> string) \<Rightarrow> HeritageItem \<Rightarrow> string" where
  \<comment> \<open>\<^verbatim>\<open>hashlib.md5(item_data.encode()).hexdigest()\<close>; \<open>md5\<close> stands for the library's
      digest of the encoded string\<close>
  "hash_id md5 item = md5 (item_data item)"

definition collision :: "(string \<Rightarrow> string) \<Rightarrow> string \<Rightarrow> string \<Rightarrow> bool" where
  \<comment> \<open>two different strings with the same digest\<close>
  "collision md5 x y \<longleftrightarrow> x \<noteq> y \<and> md5 x = md5 y"

definition update_row :: "HeritageItem \<Rightarrow> string \<Rightarrow> heritage_row \<Rightarrow> heritage_row" where
  \<comment> \<open>the effect of the \<^verbatim>\<open>UPDATE ... WHERE hash_id = ?\<close> on one row\<close>
  "update_row item h r =
     (if row_hash_id r = h
      then r\<lparr>row_significance_score := significance_score item,
              row_threat_level := threat_level item,
              row_last_updated := last_updated item,
              row_metadata := metadata item\<rparr>
      else r)"

definition insert_row :: "HeritageItem \<Rightarrow> string \<Rightarrow> heritage_row" where
  "insert_row item h =
     \<lparr>row_name = name item, row_location = location item, row_type = type item,
      row_period = period item, row_significance_score = significance_score item,
      row_threat_level = threat_level item, row_last_updated = last_updated item,
      row_source = source item, row_metadata = metadata item, row_hash_id = h\<rparr>"

fun fits_sqlite :: "jval \<Rightarrow> bool" where
  \<comment> \<open>whether \<^verbatim>\<open>sqlite3\<close> can bind the value: an integer has to fit in 64 bits\<close>
  "fits_sqlite (JInt n) = (- (2 ^ 63) \<le> n \<and> n < 2 ^ 63)"
| "fits_sqlite v = True"


fun save_loop ::
  "(string \<Rightarrow> string) \<Rightarrow> HeritageItem list \<Rightarrow> heritage_row list \<Rightarrow> nat \<Rightarrow> nat
     \<Rightarrow> db_error + (heritage_row list \<times> nat \<times> nat)" where
  \<comment> \<open>the \<^verbatim>\<open>for item in heritage_items\<close> loop. The INSERT binds its parameters first,
      which raises OverflowError on an integer outside 64 bits, and then raises
      IntegrityError on a NULL name (column \<^verbatim>\<open>name TEXT NOT NULL\<close>); the UPDATE binds
      the score, the threat level, the time, the metadata and the hash only\<close>
  "save_loop md5 [] rows new_items updated_items = Inr (rows, new_items, updated_items)"
| "save_loop md5 (item # items) rows new_items updated_items =
     (let h = hash_id md5 item;
          existing = filter (\<lambda>r. row_hash_id r = h) rows
      in if existing \<noteq> [] then
           save_loop md5 items (map (update_row item h) rows) new_items (updated_items + 1)
         else if \<not> (fits_sqlite (name item) \<and> fits_sqlite (type item) \<and>
                    fits_sqlite (period item)) then Inl IntegerOverflow
         else if name item = JNull then Inl IntegrityError
         else save_loop md5 items (rows @ [insert_row item h]) (new_items + 1) updated_items)"

record threat_row =
  threat_type :: jval
  severity :: jval
  description :: jval
  detected_date :: nat
  threat_source :: jval

record stats_row =
  stats_collection_date :: nat
  stats_source :: string
  stats_total_items :: nat
  stats_new_items :: nat
  stats_updated_items :: nat
  stats_errors :: nat

record store =
  heritage_items :: "heritage_row list"
  threat_monitoring :: "threat_row list"
  collection_stats :: "stats_row list"

definition save_to_database ::
  "(string \<Rightarrow> string) \<Rightarrow> HeritageItem list \<Rightarrow> store \<Rightarrow> (db_error + (nat \<times> nat)) \<times> store" where
  \<comment> \<open>\<^verbatim>\<open>with sqlite3.connect(...) as conn\<close> commits when the body returns and rolls back
      when it raises\<close>
  "save_to_database md5 items st =
     (case save_loop md5 items (heritage_items st) 0 0 of
        Inl e \<Rightarrow> (Inl e, st)
      | Inr (rows, new_items, updated_items) \<Rightarrow>
          (Inr (new_items, updated_items), st\<lparr>heritage_items := rows\<rparr>))"

section \<open>Source adapters\<close>

text \<open>
  What the sources answer is a parameter of the model. Each field of \<open>environment\<close>
  is the outcome of one request: \<open>Inl\<close> when \<^verbatim>\<open>session.get\<close>, \<^verbatim>\<open>raise_for_status\<close>,
  \<^verbatim>\<open>response.json()\<close> or the extraction of the list from the answer raises, \<open>Inr\<close> the
  decoded answer otherwise, a list of JSON objects. \<open>now\<close> is the clock
  (\<^verbatim>\<open>datetime.now()\<close>). Of the configuration, the model keeps the two options that
  decide control flow; \<^verbatim>\<open>time.sleep(rate_limit_delay)\<close> only delays.
\<close>

datatype source_field = SourceAbsent | SourceDict payload | SourceOther

record article =
  scalars :: payload
  source_of :: source_field

record environment =
  met_object_ids :: "error + int list"
  met_object :: "int \<Rightarrow> error + payload"
  unesco_sites :: "error + payload list"
  news_articles :: "string \<Rightarrow> error + article list"
  now :: nat

record config =
  news_api_key :: jval
  batch_size :: int

definition met_item :: "environment \<Rightarrow> int \<Rightarrow> HeritageItem option" where
  \<comment> \<open>the body of the loop of \<^verbatim>\<open>_process_met_batch\<close>: \<open>None\<close> when the object is
      skipped, by the filter or by the \<^verbatim>\<open>except\<close> branch\<close>
  "met_item env obj_id =
     (case met_object env obj_id of
        Inl e \<Rightarrow> None
      | Inr data \<Rightarrow>
          if \<not> accepted data then None
          else
            (case calculate_significance_score data of
               Inl e \<Rightarrow> None
             | Inr significance \<Rightarrow>
                 (case assess_threat_level data of
                    Inl e \<Rightarrow> None
                  | Inr level \<Rightarrow>
                      Some \<lparr>name = get_or data ''title'' (JStr ''Unknown''),
                            location = strip_chars '', ''
                              (py_str (get_or data ''city'' (JStr [])) @ '', '' @
                               py_str (get_or data ''country'' (JStr []))),
                            type = get_or data ''classification'' (JStr ''artwork''),
                            period = get_or data ''period'' (get_or data ''dynasty'' (JStr ''Unknown'')),
                            significance_score = significance,
                            threat_level = level,
                            last_updated = now env,
                            source = ''Metropolitan Museum'',
                            metadata = map_of
                              [(''object_id'', JInt obj_id),
                               (''artist'', get data ''artistDisplayName''),
                               (''date'', get data ''objectDate''),
                               (''medium'', get data ''medium''),
                               (''dimensions'', get data ''dimensions''),
                               (''department'', get data ''department''),
                               (''accession_number'', get data ''accessionNumber''),
                               (''public_domain'', get data ''isPublicDomain''),
                               (''primary_image'', get data ''primaryImage''),
                               (''gallery_number'', get data ''GalleryNumber'')]\<rparr>)))"

fun process_met_batch :: "environment \<Rightarrow> int list \<Rightarrow> HeritageItem list" where
  "process_met_batch env [] = []"
| "process_met_batch env (obj_id # object_ids) =
     (case met_item env obj_id of None \<Rightarrow> [] | Some item \<Rightarrow> [item])
       @ process_met_batch env object_ids"

definition range_step :: "nat \<Rightarrow> nat \<Rightarrow> nat list" where
  \<comment> \<open>\<^verbatim>\<open>range(0, n, step)\<close> for a positive step\<close>
  "range_step n step = map (\<lambda>j. j * step) [0..<(n + step - 1) div step]"

definition collect_met_museum_data :: "config \<Rightarrow> environment \<Rightarrow> HeritageItem list" where
  \<comment> \<open>every exception is caught inside: the function logs it and returns the items it
      has; \<^verbatim>\<open>range\<close> raises ValueError on a step of zero and is empty on a negative one\<close>
  "collect_met_museum_data cfg env =
     (case met_object_ids env of
        Inl e \<Rightarrow> []
      | Inr object_ids \<Rightarrow>
          if batch_size cfg \<le> 0 then []
          else
            concat (map (\<lambda>i. process_met_batch env (take (nat (batch_size cfg)) (drop i object_ids)))
                        (range_step (min (length object_ids) 1000) (nat (batch_size cfg)))))"

definition unesco_item :: "nat \<Rightarrow> payload \<Rightarrow> real \<Rightarrow> HeritageItem" where
  "unesco_item t site significance =
     \<lparr>name = get_or site ''site'' (JStr ''Unknown Site''),
      location = py_str (get_or site ''states'' (JStr [])),
      type = JStr ''heritage_site'',
      period = get_or site ''date_inscribed'' (JStr ''Unknown''),
      significance_score = significance,
      threat_level = (if get_or site ''danger'' (JStr ''0'') = JStr ''1'' then ''High'' else ''Medium''),
      last_updated = t,
      source = ''UNESCO'',
      metadata = map_of
        [(''unique_number'', get site ''unique_number''),
         (''criteria'', get site ''criteria''),
         (''category'', get site ''category''),
         (''short_description'', get site ''short_description''),
         (''longitude'', get site ''longitude''),
         (''latitude'', get site ''latitude''),
         (''area_hectares'', get site ''area_hectares''),
         (''danger_list'', JBool (get_or site ''danger'' (JStr ''0'') = JStr ''1'')),
         (''transboundary'', JBool (get_or site ''transboundary'' (JStr ''0'') = JStr ''1''))]\<rparr>"

fun unesco_loop :: "nat \<Rightarrow> payload list \<Rightarrow> HeritageItem list \<Rightarrow> HeritageItem list" where
  \<comment> \<open>\<^verbatim>\<open>for site in data\<close>: the \<^verbatim>\<open>try\<close> is around the whole loop, so the first site
      whose year \<^verbatim>\<open>int\<close> rejects ends the collection with the items gathered so far\<close>
  "unesco_loop t [] items = items"
| "unesco_loop t (site # sites) items =
     (case unesco_significance site of
        Inl e \<Rightarrow> items
      | Inr significance \<Rightarrow>
          unesco_loop t sites (items @ [unesco_item t site significance]))"

definition collect_unesco_data :: "environment \<Rightarrow> HeritageItem list" where
  "collect_unesco_data env =
     (case unesco_sites env of
        Inl e \<Rightarrow> []
      | Inr data \<Rightarrow> unesco_loop (now env) data [])"

definition default_keywords :: "string list" where
  "default_keywords =
     [''museum destroyed'', ''cultural heritage damage'', ''art theft'',
      ''monument vandalized'', ''archaeological site damaged'',
      ''library burned'', ''statue toppled'', ''heritage site threatened'']"

definition source_name :: "article \<Rightarrow> error + jval" where
  \<comment> \<open>\<^verbatim>\<open>article.get('source', {}).get('name')\<close>\<close>
  "source_name a =
     (case source_of a of
        SourceAbsent \<Rightarrow> Inr JNull
      | SourceDict d \<Rightarrow> Inr (get d ''name'')
      | SourceOther \<Rightarrow> Inl AttributeError)"

definition threat_of :: "string \<Rightarrow> article \<Rightarrow> jval \<Rightarrow> payload" where
  "threat_of keyword a src =
     map_of [(''title'', get (scalars a) ''title''),
             (''description'', get (scalars a) ''description''),
             (''source'', src),
             (''published_at'', get (scalars a) ''publishedAt''),
             (''url'', get (scalars a) ''url''),
             (''keyword'', JStr keyword),
             (''severity'', JStr (assess_threat_severity (scalars a)))]"

fun article_loop :: "string \<Rightarrow> article list \<Rightarrow> payload list \<Rightarrow> bool \<times> payload list" where
  \<comment> \<open>the inner loop; the flag tells whether it ended without an exception\<close>
  "article_loop keyword [] threats = (True, threats)"
| "article_loop keyword (a # as) threats =
     (case source_name a of
        Inl e \<Rightarrow> (False, threats)
      | Inr src \<Rightarrow> article_loop keyword as (threats @ [threat_of keyword a src]))"

fun monitor_loop ::
  "environment \<Rightarrow> string list \<Rightarrow> payload list \<Rightarrow> string list \<Rightarrow> payload list \<times> string list" where
  \<comment> \<open>\<^verbatim>\<open>for keyword in keywords\<close>, inside one \<^verbatim>\<open>try\<close>; the second list is the
      requests sent to the news source so far\<close>
  "monitor_loop env [] threats requests = (threats, requests)"
| "monitor_loop env (keyword # keywords) threats requests =
     (case news_articles env keyword of
        Inl e \<Rightarrow> (threats, requests @ [keyword])
      | Inr articles \<Rightarrow>
          (case article_loop keyword articles threats of
             (False, threats') \<Rightarrow> (threats', requests @ [keyword])
           | (True, threats') \<Rightarrow> monitor_loop env keywords threats' (requests @ [keyword])))"

definition monitor_cultural_threats ::
  "config \<Rightarrow> environment \<Rightarrow> string list option \<Rightarrow> payload list \<times> string list" where
  \<comment> \<open>returns the threats and the requests it sent\<close>
  "monitor_cultural_threats cfg env keywords =
     (if \<not> truthy (news_api_key cfg) then ([], [])
      else monitor_loop env (case keywords of None \<Rightarrow> default_keywords | Some ks \<Rightarrow> ks) [] [])"




section \<open>Aggregator\<close>

definition location_counts :: "heritage_row list \<Rightarrow> (string \<times> nat) list" where
  \<comment> \<open>\<^verbatim>\<open>SELECT location, COUNT(*) ... WHERE location IS NOT NULL AND location != ''
      GROUP BY location\<close>: one pair for each non-empty location (no row of the model
      has a NULL location)\<close>
  "location_counts rows =
     map (\<lambda>l. (l, length (filter (\<lambda>r. row_location r = l) rows)))
         (remdups (filter (\<lambda>l. l \<noteq> []) (map row_location rows)))"

definition top_locations_answer :: "heritage_row list \<Rightarrow> (string \<times> nat) list \<Rightarrow> bool" where
  \<comment> \<open>what the text of the query asks for, \<^verbatim>\<open>ORDER BY count DESC LIMIT 10\<close>: the groups
      in descending order of count, cut to the first ten rows\<close>
  "top_locations_answer rows result \<longleftrightarrow>
     (\<exists>ordered. mset ordered = mset (location_counts rows) \<and>
                sorted_wrt (\<lambda>a b. snd b \<le> snd a) ordered \<and>
                result = take 10 ordered)"



definition top_locations_check :: "heritage_row list \<Rightarrow> (string \<times> nat) list \<Rightarrow> bool" where
  \<comment> \<open>a test for the answers of the query: ten groups (or all of them), in descending
      order, and no group left out has a larger count than one that is in\<close>
  "top_locations_check rows result =
     (let groups = location_counts rows in
      distinct result \<and>
      list_all (\<lambda>e. e \<in> set groups) result \<and>
      length result = min 10 (length groups) \<and>
      sorted_wrt (\<lambda>a b. snd b \<le> snd a) result \<and>
      list_all (\<lambda>g. g \<in> set result \<or> list_all (\<lambda>e. snd g \<le> snd e) result) groups)"

section \<open>Collection orchestrator\<close>

text \<open>
  The result of a run, without its clock readings (\<^verbatim>\<open>start_time\<close>, \<^verbatim>\<open>end_time\<close>,
  \<^verbatim>\<open>duration_minutes\<close>). The store of the model is always available: it raises what
  the data makes it raise. The closing statistics row holds counters (fewer than
  \<open>2 ^ 63\<close>, as the lengths of lists are) and cannot be refused.
\<close>

record results =
  sources_processed :: "string list"
  total_items_collected :: nat
  new_items :: nat
  updated_items :: nat
  threats_detected :: nat
  errors :: "string list"






section \<open>Example inputs\<close>

definition mona_lisa :: payload where
  "mona_lisa =
     map_of [(''title'', JStr ''Mona Lisa''), (''city'', JStr ''Paris''), (''country'', JStr ''France''),
             (''isPublicDomain'', JBool True), (''isOnView'', JBool True)]"

definition article0 :: payload where
  "article0 =
     map_of [(''title'', JStr ''Temple DESTROYED''), (''description'', JStr ''Museum damaged'')]"



definition item_a :: HeritageItem where
  "item_a = \<lparr>name = JStr ''Mona Lisa'', location = ''Paris, France'', type = JStr ''artwork'',
     period = JStr ''Unknown'', significance_score = 6, threat_level = ''Low'', last_updated = 1,
     source = ''Metropolitan Museum'', metadata = map_of [(''object_id'', JInt 1)]\<rparr>"

definition item_b :: HeritageItem where
  "item_b = item_a\<lparr>significance_score := 5.5, threat_level := ''Medium'', last_updated := 2,
     metadata := map_of [(''object_id'', JInt 2)]\<rparr>"


definition item_c :: HeritageItem where
  "item_c = item_a\<lparr>location := ''Paris''\<rparr>"

definition empty_store :: store where
  "empty_store = \<lparr>heritage_items = [], threat_monitoring = [], collection_stats = []\<rparr>"

definition site_1978 :: payload where
  "site_1978 = map_of [(''site'', JStr ''Galapagos Islands''), (''states'', JStr ''Ecuador''),
                       (''date_inscribed'', JStr ''1978''), (''danger'', JStr ''0'')]"

definition site_far :: payload where
  "site_far = map_of [(''site'', JStr ''Far Future''), (''states'', JStr ''Chile''),
                      (''date_inscribed'', JInt (10 ^ 320))]"

definition site_3000 :: payload where
  "site_3000 = map_of [(''site'', JStr ''Lunar Base''), (''states'', JStr ''Moon''),
                       (''date_inscribed'', JStr ''3000'')]"

definition env_3000 :: environment where
  "env_3000 = \<lparr>met_object_ids = Inl HTTPError, met_object = (\<lambda>i. Inl HTTPError),
               unesco_sites = Inr [site_3000], news_articles = (\<lambda>k. Inl HTTPError), now = 7\<rparr>"

definition cfg_ok :: config where
  "cfg_ok = \<lparr>news_api_key = JNull, batch_size = 100\<rparr>"

definition env_ok :: environment where
  "env_ok = \<lparr>met_object_ids = Inr [1], met_object = (\<lambda>i. Inr mona_lisa),
             unesco_sites = Inr [site_1978], news_articles = (\<lambda>k. Inr []), now = 7\<rparr>"

definition article1 :: article where
  "article1 = \<lparr>scalars = article0, source_of = SourceAbsent\<rparr>"

definition env_news :: environment where
  "env_news = \<lparr>met_object_ids = Inr [], met_object = (\<lambda>i. Inl HTTPError),
               unesco_sites = Inr [], news_articles = (\<lambda>k. Inr [article1]), now = 7\<rparr>"






definition row_at :: "string \<Rightarrow> heritage_row" where
  "row_at l = insert_row (item_a\<lparr>location := l\<rparr>) l"











section \<open>Properties of the scorer\<close>

lemma calculate_significance_score_range:
  assumes "calculate_significance_score data = Inr s"
  shows "5 \<le> s \<and> s \<le> 10"
  using assms
  by (auto simp: calculate_significance_score_def Let_def split: jval.splits if_splits)

lemma calculate_significance_score_returns:
  assumes "\<exists>a. get_or data ''artistDisplayName'' (JStr []) = JStr a"
    and "\<exists>d. get_or data ''objectDate'' (JStr []) = JStr d"
  shows "\<exists>s. calculate_significance_score data = Inr s"
  using assms
  by (auto simp: calculate_significance_score_def Let_def)

text \<open>
  Claim C9. A museum payload accepted by the filter whose score is computed has a score
  of at least 5.0 and at most 10.0; the score is computed whenever the artist and the
  date of the object are strings or absent.
\<close>

theorem museum_score_at_least_base:
  "(accepted data \<and> calculate_significance_score data = Inr s \<longrightarrow> 5 \<le> s \<and> s \<le> 10) \<and>
   ((\<exists>a. get_or data ''artistDisplayName'' (JStr []) = JStr a) \<and>
    (\<exists>d. get_or data ''objectDate'' (JStr []) = JStr d) \<longrightarrow>
      (\<exists>s. calculate_significance_score data = Inr s))"
  using calculate_significance_score_range [of data s]
    calculate_significance_score_returns [of data]
  by blast

theorem museum_score_at_least_base_witness:
  "accepted mona_lisa \<and> calculate_significance_score mona_lisa = Inr 6 \<and> (5::real) \<le> 6 \<and> (6::real) \<le> 10"
proof -
  have a: "accepted mona_lisa"
    by (simp add: accepted_def mona_lisa_def get_def get_or_def)
  have c: "calculate_significance_score mona_lisa = Inr 6"
    by (simp add: calculate_significance_score_def mona_lisa_def get_def get_or_def
        famous_artists_def lower_def)
  from museum_score_at_least_base [of mona_lisa 6] a c show ?thesis by blast
qed

lemmas int_eval = int_of_string_def strip_def is_space_def is_digit_def digit_of_def get_or_def

lemma float_overflow_bound: "\<bar>a\<bar> < 2 ^ 1000 \<Longrightarrow> \<not> float_overflow a"
proof -
  have "(2::int) ^ 1000 \<le> 100 * (2 ^ 1024 - 2 ^ 970)" by simp
  then show "\<bar>a\<bar> < 2 ^ 1000 \<Longrightarrow> \<not> float_overflow a"
    unfolding float_overflow_def by linarith
qed

lemma float_overflow_years [simp]:
  "\<not> float_overflow 0" "\<not> float_overflow 46" "\<not> float_overflow 41" "\<not> float_overflow 23"
  "\<not> float_overflow 14" "\<not> float_overflow (- 976)"
  by (rule float_overflow_bound, simp)+

text \<open>
  Claim C5, as the code has it. When \<^verbatim>\<open>int\<close> accepts the field and the quotient is in
  the range of the floats, the score of a registry site is
  \<open>min (9.0 + (2024 - inscription_year) / 100) 10.0\<close> (in real arithmetic, of which
  the code computes the nearest floats): the formula of the specification with the
  reference year fixed at 2024, whatever the year in which it runs. An absent field
  counts as 2024 and gives 9.0. The computation raises what \<^verbatim>\<open>int\<close> raises when it
  rejects the field, and OverflowError when the quotient leaves the range of the
  floats. The counterexample is a site inscribed in 1978, scored in 2026.
\<close>

theorem registry_score_reference_year:
  "(py_int (get_or site ''date_inscribed'' (JInt 2024)) = Inr y \<and> \<not> float_overflow (2024 - y) \<longrightarrow>
      unesco_significance site = Inr (registry_formula 2024 y)) \<and>
   (py_int (get_or site ''date_inscribed'' (JInt 2024)) = Inr y \<and> float_overflow (2024 - y) \<longrightarrow>
      unesco_significance site = Inl OverflowError) \<and>
   (py_int (get_or site ''date_inscribed'' (JInt 2024)) = Inl e \<longrightarrow>
      unesco_significance site = Inl e) \<and>
   (site ''date_inscribed'' = None \<longrightarrow> unesco_significance site = Inr 9)"
  by (simp add: unesco_significance_def registry_formula_def get_or_def)

theorem registry_score_reference_year_witness:
  "py_int (get_or site_1978 ''date_inscribed'' (JInt 2024)) = Inr 1978 \<and>
   \<not> float_overflow (2024 - 1978) \<and>
   unesco_significance site_1978 = Inr (registry_formula 2024 1978) \<and>
   registry_formula 2024 1978 = 473 / 50 \<and>
   py_int (get_or site_far ''date_inscribed'' (JInt 2024)) = Inr (10 ^ 320) \<and>
   float_overflow (2024 - 10 ^ 320) \<and>
   unesco_significance site_far = Inl OverflowError"
proof -
  have y: "py_int (get_or site_1978 ''date_inscribed'' (JInt 2024)) = Inr 1978"
    by (simp add: site_1978_def int_eval)
  have o: "\<not> float_overflow (2024 - 1978)" by simp
  have f: "registry_formula 2024 1978 = 473 / 50"
    by (simp add: registry_formula_def)
  have y': "py_int (get_or site_far ''date_inscribed'' (JInt 2024)) = Inr (10 ^ 320)"
    by (simp add: site_far_def get_or_def)
  have o': "float_overflow (2024 - 10 ^ 320)"
    by (simp add: float_overflow_def)
  from registry_score_reference_year [of site_1978 1978] y o
  have 1: "unesco_significance site_1978 = Inr (registry_formula 2024 1978)" by blast
  from registry_score_reference_year [of site_far "10 ^ 320"] y' o'
  have 2: "unesco_significance site_far = Inl OverflowError" by blast
  from y o 1 f y' o' 2 show ?thesis by (intro conjI)
qed

theorem registry_score_counterexample:
  "py_int (get_or site_1978 ''date_inscribed'' (JInt 2024)) = Inr 1978 \<and>
   unesco_significance site_1978 = Inr (473 / 50) \<and>
   registry_formula 2026 1978 = 237 / 25 \<and>
   unesco_significance site_1978 \<noteq> Inr (registry_formula 2026 1978)"
  by (simp add: unesco_significance_def registry_formula_def site_1978_def int_eval)

lemma met_item_score:
  assumes "met_item env obj_id = Some item"
  shows "5 \<le> significance_score item \<and> significance_score item \<le> 10"
proof -
  from assms obtain data s where
    "calculate_significance_score data = Inr s" "significance_score item = s"
    by (auto simp: met_item_def split: sum.splits if_splits)
  with calculate_significance_score_range [of data s] show ?thesis by simp
qed

lemma process_met_batch_score:
  assumes "item \<in> set (process_met_batch env ids)"
  shows "5 \<le> significance_score item \<and> significance_score item \<le> 10"
  using assms
  by (induction ids) (auto split: option.splits dest: met_item_score met_item_score [OF sym])

lemma collect_met_museum_data_score:
  assumes "item \<in> set (collect_met_museum_data cfg env)"
  shows "5 \<le> significance_score item \<and> significance_score item \<le> 10"
  using assms
  by (auto simp: collect_met_museum_data_def split: sum.splits if_splits
      dest: process_met_batch_score)

lemma registry_score_nonneg:
  "0 \<le> min (9 + real_of_int (2024 - y) / 100) 10 \<longleftrightarrow> y \<le> 2924"
proof -
  have "0 \<le> 9 + real_of_int (2024 - y) / 100 \<longleftrightarrow> real_of_int y \<le> 2924"
    by (simp add: field_simps)
  also have "\<dots> \<longleftrightarrow> y \<le> 2924"
    by linarith
  finally show ?thesis by simp
qed

lemma unesco_significance_le:
  assumes "unesco_significance site = Inr s"
  shows "s \<le> 10"
  using assms by (auto simp: unesco_significance_def split: sum.splits if_splits)

lemma unesco_loop_score:
  assumes "item \<in> set (unesco_loop t sites acc)"
    and "\<forall>i\<in>set acc. significance_score i \<le> 10"
  shows "significance_score item \<le> 10"
  using assms
proof (induction sites arbitrary: acc)
  case Nil
  then show ?case by simp
next
  case (Cons site sites)
  show ?case
  proof (cases "unesco_significance site")
    case (Inl e)
    with Cons.prems show ?thesis by simp
  next
    case (Inr s)
    with Cons.prems have "item \<in> set (unesco_loop t sites (acc @ [unesco_item t site s]))"
      by simp
    moreover have "\<forall>i\<in>set (acc @ [unesco_item t site s]). significance_score i \<le> 10"
      using Cons.prems(2) unesco_significance_le [OF Inr] by (simp add: unesco_item_def)
    ultimately show ?thesis by (rule Cons.IH)
  qed
qed

lemma collect_unesco_data_score:
  assumes "item \<in> set (collect_unesco_data env)"
  shows "significance_score item \<le> 10"
  using assms unesco_loop_score [of item "now env" _ "[]"]
  by (auto simp: collect_unesco_data_def split: sum.splits)

section \<open>Properties of the threat classifier\<close>







section \<open>Properties of the store\<close>

text \<open>
  Claim C2. The identity hash is a function of the triple (name, location, source):
  items with the same triple have the same \<open>hash_id\<close>. When the names are strings and
  exactly one of the three components differs, the hashed strings differ, so the
  two \<open>hash_id\<close>s differ unless the digest collides on them.
\<close>

theorem hash_id_function_of_triple:
  "(name i = name j \<and> location i = location j \<and> source i = source j \<longrightarrow>
      hash_id md5 i = hash_id md5 j) \<and>
   ((\<exists>n n'. name i = JStr n \<and> name j = JStr n') \<and>
    ((name i \<noteq> name j \<and> location i = location j \<and> source i = source j) \<or>
     (name i = name j \<and> location i \<noteq> location j \<and> source i = source j) \<or>
     (name i = name j \<and> location i = location j \<and> source i \<noteq> source j)) \<longrightarrow>
      hash_id md5 i \<noteq> hash_id md5 j \<or> collision md5 (item_data i) (item_data j))"
proof (intro conjI impI)
  assume "name i = name j \<and> location i = location j \<and> source i = source j"
  then show "hash_id md5 i = hash_id md5 j"
    by (simp add: hash_id_def item_data_def)
next
  assume a: "(\<exists>n n'. name i = JStr n \<and> name j = JStr n') \<and>
    ((name i \<noteq> name j \<and> location i = location j \<and> source i = source j) \<or>
     (name i = name j \<and> location i \<noteq> location j \<and> source i = source j) \<or>
     (name i = name j \<and> location i = location j \<and> source i \<noteq> source j))"
  then have "item_data i \<noteq> item_data j"
    by (auto simp: item_data_def)
  then show "hash_id md5 i \<noteq> hash_id md5 j \<or> collision md5 (item_data i) (item_data j)"
    by (auto simp: hash_id_def collision_def)
qed

theorem hash_id_function_of_triple_witness:
  "name item_a = name item_b \<and> location item_a = location item_b \<and> source item_a = source item_b \<and>
   hash_id (\<lambda>s. s) item_a = hash_id (\<lambda>s. s) item_b \<and>
   name item_a = name item_c \<and> location item_a \<noteq> location item_c \<and> source item_a = source item_c \<and>
   \<not> collision (\<lambda>s. s) (item_data item_a) (item_data item_c) \<and>
   hash_id (\<lambda>s. s) item_a \<noteq> hash_id (\<lambda>s. s) item_c"
proof -
  have 1: "name item_a = name item_b \<and> location item_a = location item_b \<and> source item_a = source item_b"
    by (simp add: item_a_def item_b_def)
  have 2: "name item_a = name item_c \<and> location item_a \<noteq> location item_c \<and> source item_a = source item_c"
    by (simp add: item_a_def item_c_def)
  have 3: "\<exists>n n'. name item_a = JStr n \<and> name item_c = JStr n'"
    by (simp add: item_a_def item_c_def)
  have 4: "\<not> collision (\<lambda>s. s) (item_data item_a) (item_data item_c)"
    by (simp add: collision_def)
  from hash_id_function_of_triple [of item_a item_b "\<lambda>s. s"] 1
  have a: "hash_id (\<lambda>s. s) item_a = hash_id (\<lambda>s. s) item_b" by blast
  from hash_id_function_of_triple [of item_a item_c "\<lambda>s. s"] 2 3 4
  have b: "hash_id (\<lambda>s. s) item_a \<noteq> hash_id (\<lambda>s. s) item_c" by blast
  from 1 2 4 a b show ?thesis by blast
qed

lemma update_row_hash [simp]: "row_hash_id (update_row item h r) = row_hash_id r"
  by (simp add: update_row_def)

lemma row_hash_id_comp_update_row [simp]: "row_hash_id \<circ> update_row item h = row_hash_id"
  by (rule ext) simp

lemma map_update_row_hashes [simp]: "map row_hash_id (map (update_row item h) rows) = map row_hash_id rows"
  by (induction rows) simp_all

lemma save_loop_counts:
  assumes "save_loop md5 items rows n u = Inr (rows', n', u')"
  shows "n' + u' = n + u + length items \<and>
         n' = n + card (hash_id md5 ` set items - row_hash_id ` set rows) \<and>
         row_hash_id ` set rows' = row_hash_id ` set rows \<union> hash_id md5 ` set items"
  using assms
proof (induction items arbitrary: rows n u)
  case Nil
  then show ?case by simp
next
  case (Cons item items)
  let ?h = "hash_id md5 item"
  show ?case
  proof (cases "filter (\<lambda>r. row_hash_id r = ?h) rows = []")
    case False
    then have mem: "?h \<in> row_hash_id ` set rows"
      by (force simp: filter_empty_conv)
    from False Cons.prems
    have "save_loop md5 items (map (update_row item ?h) rows) n (u + 1) = Inr (rows', n', u')"
      by (simp add: Let_def)
    from Cons.IH [OF this]
    have ih: "n' + u' = n + (u + 1) + length items"
      "n' = n + card (hash_id md5 ` set items - row_hash_id ` set rows)"
      "row_hash_id ` set rows' = row_hash_id ` set rows \<union> hash_id md5 ` set items"
      by (simp_all add: image_image)
    have "hash_id md5 ` set (item # items) - row_hash_id ` set rows
        = hash_id md5 ` set items - row_hash_id ` set rows"
      using mem by auto
    with ih mem show ?thesis by auto
  next
    case True
    then have nmem: "?h \<notin> row_hash_id ` set rows"
      by (force simp: filter_empty_conv)
    from True Cons.prems
    have "save_loop md5 items (rows @ [insert_row item ?h]) (n + 1) u = Inr (rows', n', u')"
      by (simp add: Let_def split: if_splits)
    from Cons.IH [OF this]
    have ih: "n' + u' = (n + 1) + u + length items"
      "n' = (n + 1) + card (hash_id md5 ` set items - (insert ?h (row_hash_id ` set rows)))"
      "row_hash_id ` set rows' = insert ?h (row_hash_id ` set rows) \<union> hash_id md5 ` set items"
      by (simp_all add: insert_row_def Un_commute)
    have "hash_id md5 ` set (item # items) - row_hash_id ` set rows
        = insert ?h (hash_id md5 ` set items - insert ?h (row_hash_id ` set rows))"
      using nmem by auto
    then have "card (hash_id md5 ` set (item # items) - row_hash_id ` set rows)
        = Suc (card (hash_id md5 ` set items - insert ?h (row_hash_id ` set rows)))"
      by simp
    with ih show ?thesis by auto
  qed
qed


lemma save_loop_keeps_unique:
  assumes "save_loop md5 items rows n u = Inr (rows', n', u')"
    and "distinct (map row_hash_id rows)"
  shows "distinct (map row_hash_id rows')"
  using assms
proof (induction items arbitrary: rows n u)
  case Nil
  then show ?case by simp
next
  case (Cons item items)
  let ?h = "hash_id md5 item"
  show ?case
  proof (cases "filter (\<lambda>r. row_hash_id r = ?h) rows = []")
    case False
    with Cons.prems(1)
    have "save_loop md5 items (map (update_row item ?h) rows) n (u + 1) = Inr (rows', n', u')"
      by (simp add: Let_def)
    moreover have "distinct (map row_hash_id (map (update_row item ?h) rows))"
      unfolding map_update_row_hashes by (rule Cons.prems(2))
    ultimately show ?thesis by (rule Cons.IH)
  next
    case True
    then have "?h \<notin> row_hash_id ` set rows"
      by (force simp: filter_empty_conv)
    then have "distinct (map row_hash_id (rows @ [insert_row item ?h]))"
      using Cons.prems(2) by (simp add: insert_row_def)
    moreover from True Cons.prems(1)
    have "save_loop md5 items (rows @ [insert_row item ?h]) (n + 1) u = Inr (rows', n', u')"
      by (simp add: Let_def split: if_splits)
    ultimately show ?thesis by (rule Cons.IH [rotated])
  qed
qed

lemma save_to_database_keeps_unique:
  assumes "distinct (map row_hash_id (heritage_items st))"
  shows "distinct (map row_hash_id (heritage_items (snd (save_to_database md5 items st))))"
proof (cases "save_loop md5 items (heritage_items st) 0 0")
  case (Inl e)
  with assms show ?thesis by (simp add: save_to_database_def)
next
  case (Inr res)
  obtain rows' n' u' where res: "res = (rows', n', u')" by (cases res)
  from save_loop_keeps_unique [OF Inr [unfolded res] assms]
  show ?thesis by (simp add: save_to_database_def Inr res)
qed









lemma save_loop_step:
  assumes "save_loop md5 (item # items) rows n u = Inr (rows', n', u')"
  shows "\<exists>rows1 n1 u1.
           save_loop md5 items rows1 n1 u1 = Inr (rows', n', u') \<and>
           (rows1 = map (update_row item (hash_id md5 item)) rows \<or>
            rows1 = rows @ [insert_row item (hash_id md5 item)] \<and>
            filter (\<lambda>r. row_hash_id r = hash_id md5 item) rows = [])"
proof (cases "filter (\<lambda>r. row_hash_id r = hash_id md5 item) rows = []")
  case False
  with assms
  have "save_loop md5 items (map (update_row item (hash_id md5 item)) rows) n (u + 1)
      = Inr (rows', n', u')"
    by (simp add: Let_def)
  then show ?thesis by blast
next
  case True
  with assms
  have "save_loop md5 items (rows @ [insert_row item (hash_id md5 item)]) (n + 1) u
      = Inr (rows', n', u')"
    by (simp add: Let_def split: if_splits)
  with True show ?thesis by blast
qed

lemma save_loop_writes:
  assumes "save_loop md5 items rows n u = Inr (rows', n', u')"
    and "r' \<in> set rows'"
  shows "if filter (\<lambda>i. hash_id md5 i = row_hash_id r') items = [] then r' \<in> set rows
         else row_significance_score r' =
              significance_score (last (filter (\<lambda>i. hash_id md5 i = row_hash_id r') items))"
  using assms
proof (induction items arbitrary: rows n u)
  case Nil
  then show ?case by simp
next
  case (Cons item items)
  let ?h = "hash_id md5 item"
  let ?ms = "filter (\<lambda>i. hash_id md5 i = row_hash_id r') items"
  from save_loop_step [OF Cons.prems(1)]
  obtain rows1 n1 u1 where
    step: "save_loop md5 items rows1 n1 u1 = Inr (rows', n', u')" and
    rows1: "rows1 = map (update_row item ?h) rows \<or>
            rows1 = rows @ [insert_row item ?h] \<and> filter (\<lambda>r. row_hash_id r = ?h) rows = []"
    by blast
  from Cons.IH [OF step Cons.prems(2)]
  have ih: "if ?ms = [] then r' \<in> set rows1
            else row_significance_score r' = significance_score (last ?ms)" .
  have new: "row_significance_score r' = significance_score item"
    if "r' \<in> set rows1" "?h = row_hash_id r'"
    using rows1
  proof
    assume "rows1 = map (update_row item ?h) rows"
    with that obtain r where r: "r \<in> set rows" "r' = update_row item ?h r" by auto
    with that(2) have "row_hash_id r = ?h" by simp
    with r show ?thesis by (simp add: update_row_def)
  next
    assume a: "rows1 = rows @ [insert_row item ?h] \<and> filter (\<lambda>r. row_hash_id r = ?h) rows = []"
    then have "r' \<notin> set rows"
      using that(2) by (auto simp: filter_empty_conv)
    with a that(1) have "r' = insert_row item ?h" by simp
    then show ?thesis by (simp add: insert_row_def)
  qed
  have old: "r' \<in> set rows" if "r' \<in> set rows1" "?h \<noteq> row_hash_id r'"
    using rows1
  proof
    assume "rows1 = map (update_row item ?h) rows"
    with that obtain r where r: "r \<in> set rows" "r' = update_row item ?h r" by auto
    with that(2) have "row_hash_id r \<noteq> ?h" by auto
    with r show ?thesis by (simp add: update_row_def)
  next
    assume "rows1 = rows @ [insert_row item ?h] \<and> filter (\<lambda>r. row_hash_id r = ?h) rows = []"
    with that show ?thesis by (auto simp: insert_row_def)
  qed
  show ?case
  proof (cases "?h = row_hash_id r'")
    case True
    then have f: "filter (\<lambda>i. hash_id md5 i = row_hash_id r') (item # items) = item # ?ms"
      by simp
    show ?thesis
    proof (cases "?ms = []")
      case True
      with ih have "r' \<in> set rows1" by simp
      from new [OF this \<open>?h = row_hash_id r'\<close>] True show ?thesis
        unfolding f by simp
    next
      case False
      with ih show ?thesis unfolding f by simp
    qed
  next
    case False
    then have f: "filter (\<lambda>i. hash_id md5 i = row_hash_id r') (item # items) = ?ms"
      by simp
    show ?thesis
    proof (cases "?ms = []")
      case True
      with ih have "r' \<in> set rows1" by simp
      from old [OF this False] True show ?thesis
        unfolding f by simp
    next
      case False
      with ih show ?thesis unfolding f by simp
    qed
  qed
qed

lemma range_step_small: "range_step (Suc 0) 100 = [0]"
  by (simp add: range_step_def)

text \<open>
  Claim C3, as the code has it. A museum score lies in [0, 10], for one accepted
  payload and for every item the museum collector returns. A registry score is at
  most 10, and it is at least 0 exactly when the inscription year is at most 2924:
  the code caps the score from above only. A save that returns has written the scores
  it was given: every item of the list has a row with its identity key, a row with the
  key of an item of the list holds the score of the last such item, and every other
  row is a row the table held before. The counterexample is a site with inscription
  year 3000, whose score -0.76 is stored.
\<close>

theorem significance_scores_bounded:
  "(accepted data \<and> calculate_significance_score data = Inr s \<longrightarrow> 0 \<le> s \<and> s \<le> 10) \<and>
   (\<forall>item \<in> set (collect_met_museum_data cfg env).
      0 \<le> significance_score item \<and> significance_score item \<le> 10) \<and>
   (\<forall>item \<in> set (collect_unesco_data env). significance_score item \<le> 10) \<and>
   (unesco_significance site = Inr s' \<and>
    py_int (get_or site ''date_inscribed'' (JInt 2024)) = Inr y \<longrightarrow>
      s' \<le> 10 \<and> (0 \<le> s' \<longleftrightarrow> y \<le> 2924)) \<and>
   (save_to_database md5 items st = (Inr r, st') \<longrightarrow>
      (\<forall>item \<in> set items. \<exists>row \<in> set (heritage_items st'). row_hash_id row = hash_id md5 item) \<and>
      (\<forall>row \<in> set (heritage_items st').
          if filter (\<lambda>item. hash_id md5 item = row_hash_id row) items = []
          then row \<in> set (heritage_items st)
          else row_significance_score row =
               significance_score (last (filter (\<lambda>item. hash_id md5 item = row_hash_id row) items))))"
proof (intro conjI)
  show "accepted data \<and> calculate_significance_score data = Inr s \<longrightarrow> 0 \<le> s \<and> s \<le> 10"
    using calculate_significance_score_range [of data s] by auto
  show "\<forall>item \<in> set (collect_met_museum_data cfg env).
      0 \<le> significance_score item \<and> significance_score item \<le> 10"
    using collect_met_museum_data_score [of _ cfg env] by force
  show "\<forall>item \<in> set (collect_unesco_data env). significance_score item \<le> 10"
    using collect_unesco_data_score by blast
  show "unesco_significance site = Inr s' \<and>
    py_int (get_or site ''date_inscribed'' (JInt 2024)) = Inr y \<longrightarrow>
      s' \<le> 10 \<and> (0 \<le> s' \<longleftrightarrow> y \<le> 2924)"
    using registry_score_nonneg [of y]
    by (auto simp: unesco_significance_def split: if_splits)
  show "save_to_database md5 items st = (Inr r, st') \<longrightarrow>
      (\<forall>item \<in> set items. \<exists>row \<in> set (heritage_items st'). row_hash_id row = hash_id md5 item) \<and>
      (\<forall>row \<in> set (heritage_items st').
          if filter (\<lambda>item. hash_id md5 item = row_hash_id row) items = []
          then row \<in> set (heritage_items st)
          else row_significance_score row =
               significance_score (last (filter (\<lambda>item. hash_id md5 item = row_hash_id row) items)))"
  proof (intro impI conjI ballI)
    assume a: "save_to_database md5 items st = (Inr r, st')"
    then obtain rows' n' u' where
      l: "save_loop md5 items (heritage_items st) 0 0 = Inr (rows', n', u')"
      and st': "st' = st\<lparr>heritage_items := rows'\<rparr>"
      by (auto simp: save_to_database_def split: sum.splits)
    from st' have rows': "heritage_items st' = rows'" by simp
    {
      fix item assume "item \<in> set items"
      with save_loop_counts [OF l]
      have "hash_id md5 item \<in> row_hash_id ` set rows'" by blast
      then show "\<exists>row \<in> set (heritage_items st'). row_hash_id row = hash_id md5 item"
        unfolding rows' by force
    }
    {
      fix row assume "row \<in> set (heritage_items st')"
      then have "row \<in> set rows'" unfolding rows' .
      from save_loop_writes [OF l this]
      show "if filter (\<lambda>item. hash_id md5 item = row_hash_id row) items = []
          then row \<in> set (heritage_items st)
          else row_significance_score row =
               significance_score (last (filter (\<lambda>item. hash_id md5 item = row_hash_id row) items))" .
    }
  qed
qed

theorem significance_scores_bounded_witness:
  "accepted mona_lisa \<and> calculate_significance_score mona_lisa = Inr 6 \<and>
   (0::real) \<le> 6 \<and> (6::real) \<le> 10 \<and>
   map significance_score (collect_met_museum_data cfg_ok env_ok) = [6] \<and>
   list_all (\<lambda>item. 0 \<le> significance_score item \<and> significance_score item \<le> 10)
     (collect_met_museum_data cfg_ok env_ok) \<and>
   map significance_score (collect_unesco_data env_ok) = [473 / 50] \<and>
   list_all (\<lambda>item. significance_score item \<le> 10) (collect_unesco_data env_ok) \<and>
   unesco_significance site_1978 = Inr (473 / 50) \<and>
   py_int (get_or site_1978 ''date_inscribed'' (JInt 2024)) = Inr 1978 \<and>
   (0::real) \<le> 473 / 50 \<and> (1978::int) \<le> 2924 \<and>
   fst (save_to_database (\<lambda>s. s) [item_a, item_b] empty_store) = Inr (1, 1) \<and>
   list_all (\<lambda>row. row_significance_score row = 11 / 2)
     (heritage_items (snd (save_to_database (\<lambda>s. s) [item_a, item_b] empty_store))) \<and>
   heritage_items (snd (save_to_database (\<lambda>s. s) [item_a, item_b] empty_store)) \<noteq> []"
proof -
  have a: "accepted mona_lisa"
    by (simp add: accepted_def mona_lisa_def get_def get_or_def)
  have c: "calculate_significance_score mona_lisa = Inr 6"
    by (simp add: calculate_significance_score_def mona_lisa_def get_def get_or_def
        famous_artists_def lower_def)
  have t: "assess_threat_level mona_lisa = Inr ''Low''"
    by (simp add: assess_threat_level_def mona_lisa_def get_or_def lower_def lower_char_def)
  have m: "map significance_score (collect_met_museum_data cfg_ok env_ok) = [6]"
    by (simp add: collect_met_museum_data_def cfg_ok_def env_ok_def range_step_small
        met_item_def a c t)
  have y: "py_int (get_or site_1978 ''date_inscribed'' (JInt 2024)) = Inr 1978"
    by (simp add: site_1978_def int_eval)
  have u: "unesco_significance site_1978 = Inr (473 / 50)"
    by (simp add: unesco_significance_def y)
  have n: "map significance_score (collect_unesco_data env_ok) = [473 / 50]"
    by (simp add: collect_unesco_data_def env_ok_def u unesco_item_def)
  have h: "hash_id (\<lambda>s. s) item_a = hash_id (\<lambda>s. s) item_b"
    by (simp add: hash_id_def item_data_def item_a_def item_b_def)
  have sv: "fst (save_to_database (\<lambda>s. s) [item_a, item_b] empty_store) = Inr (1, 1)"
    by (simp add: save_to_database_def empty_store_def Let_def h insert_row_def)
      (simp add: item_a_def)
  define st' where "st' = snd (save_to_database (\<lambda>s. s) [item_a, item_b] empty_store)"
  from sv have sv': "save_to_database (\<lambda>s. s) [item_a, item_b] empty_store = (Inr (1, 1), st')"
    unfolding st'_def by (metis prod.collapse)
  note w = significance_scores_bounded [of mona_lisa 6 cfg_ok env_ok site_1978 "473 / 50" 1978
      "\<lambda>s. s" "[item_a, item_b]" empty_store "(1, 1)" st']
  from w a c have 1: "(0::real) \<le> 6 \<and> (6::real) \<le> 10" by blast
  from w have 2: "list_all (\<lambda>item. 0 \<le> significance_score item \<and> significance_score item \<le> 10)
     (collect_met_museum_data cfg_ok env_ok)"
    unfolding list_all_iff by blast
  from w have 3: "list_all (\<lambda>item. significance_score item \<le> 10) (collect_unesco_data env_ok)"
    unfolding list_all_iff by blast
  from w u y have 4: "(0::real) \<le> 473 / 50 \<longleftrightarrow> (1978::int) \<le> 2924" by blast
  then have 5: "(0::real) \<le> 473 / 50 \<and> (1978::int) \<le> 2924" by simp
  from w sv' have present: "\<forall>item \<in> set [item_a, item_b].
      \<exists>row \<in> set (heritage_items st'). row_hash_id row = hash_id (\<lambda>s. s) item"
    and written: "\<forall>row \<in> set (heritage_items st').
          if filter (\<lambda>item. hash_id (\<lambda>s. s) item = row_hash_id row) [item_a, item_b] = []
          then row \<in> set (heritage_items empty_store)
          else row_significance_score row =
               significance_score (last (filter (\<lambda>item. hash_id (\<lambda>s. s) item = row_hash_id row)
                 [item_a, item_b]))"
    by blast+
  have 6: "row_significance_score row = 11 / 2" if "row \<in> set (heritage_items st')" for row
  proof -
    from written that
    have i: "if filter (\<lambda>item. hash_id (\<lambda>s. s) item = row_hash_id row) [item_a, item_b] = []
          then row \<in> set (heritage_items empty_store)
          else row_significance_score row =
               significance_score (last (filter (\<lambda>item. hash_id (\<lambda>s. s) item = row_hash_id row)
                 [item_a, item_b]))" by (rule bspec)
    show ?thesis
    proof (cases "hash_id (\<lambda>s. s) item_b = row_hash_id row")
      case True
      with i h show ?thesis by (simp add: item_b_def)
    next
      case False
      with i h show ?thesis by (simp add: empty_store_def)
    qed
  qed
  then have 7: "list_all (\<lambda>row. row_significance_score row = 11 / 2) (heritage_items st')"
    unfolding list_all_iff by blast
  from present have "\<exists>row \<in> set (heritage_items st'). row_hash_id row = hash_id (\<lambda>s. s) item_a"
    by simp
  then have 8: "heritage_items st' \<noteq> []" by auto
  from a c 1 [THEN conjunct1] 1 [THEN conjunct2] m 2 n 3 u y
    5 [THEN conjunct1] 5 [THEN conjunct2] sv 7 8
  show ?thesis
    unfolding st'_def by (intro conjI)
qed

theorem negative_registry_score_stored:
  "map significance_score (collect_unesco_data env_3000) = [- (19 / 25)] \<and>
   map row_significance_score
     (heritage_items (snd (save_to_database (\<lambda>s. s) (collect_unesco_data env_3000) empty_store)))
     = [- (19 / 25)] \<and>
   \<not> (0::real) \<le> - (19 / 25)"
proof -
  have s: "unesco_significance site_3000 = Inr (- (19 / 25))"
    by (simp add: unesco_significance_def site_3000_def int_eval)
  have c: "collect_unesco_data env_3000 = [unesco_item 7 site_3000 (- (19 / 25))]"
    by (simp add: collect_unesco_data_def env_3000_def s)
  show ?thesis
    unfolding c
    by (simp add: save_to_database_def empty_store_def Let_def unesco_item_def insert_row_def
        site_3000_def get_or_def)
qed

section \<open>Properties of threat monitoring\<close>

text \<open>
  Claim C7. When no news API key is configured (the option is \<^verbatim>\<open>None\<close>, or empty),
  \<open>monitor_cultural_threats\<close> returns the empty list of threats and has sent no
  request to the news source. It returns a list on every input: the function has no
  exception in its result type.
\<close>

theorem missing_news_key_skips_monitoring:
  "(\<not> truthy (news_api_key cfg) \<longrightarrow> monitor_cultural_threats cfg env keywords = ([], [])) \<and>
   (news_api_key cfg = JNull \<or> news_api_key cfg = JStr [] \<longrightarrow>
      fst (monitor_cultural_threats cfg env keywords) = [] \<and>
      snd (monitor_cultural_threats cfg env keywords) = [])"
  by (auto simp: monitor_cultural_threats_def)

theorem missing_news_key_skips_monitoring_witness:
  "\<not> truthy (news_api_key cfg_ok) \<and> news_api_key cfg_ok = JNull \<and>
   monitor_cultural_threats cfg_ok env_news (Some [''art theft'']) = ([], []) \<and>
   snd (monitor_cultural_threats (cfg_ok\<lparr>news_api_key := JStr ''k''\<rparr>) env_news (Some [''art theft'']))
     = [''art theft'']"
proof -
  have k: "\<not> truthy (news_api_key cfg_ok)" "news_api_key cfg_ok = JNull"
    by (simp_all add: cfg_ok_def)
  have r: "snd (monitor_cultural_threats (cfg_ok\<lparr>news_api_key := JStr ''k''\<rparr>) env_news (Some [''art theft'']))
     = [''art theft'']"
    by (simp add: monitor_cultural_threats_def env_news_def article1_def source_name_def)
  from missing_news_key_skips_monitoring [of cfg_ok env_news "Some [''art theft'']"] k r
  show ?thesis by blast
qed

section \<open>Properties of the aggregator\<close>


lemma location_counts_distinct: "distinct (map fst (location_counts rows))"
  by (simp add: location_counts_def comp_def)



lemma location_counts_distinct_pairs: "distinct (location_counts rows)"
  using location_counts_distinct [of rows] by (simp add: distinct_map)

lemma top_locations_check_sound:
  assumes "top_locations_check rows result"
  shows "top_locations_answer rows result"
proof -
  let ?groups = "location_counts rows"
  let ?rest = "filter (\<lambda>g. g \<notin> set result) ?groups"
  let ?ordered = "result @ rev (sort_key snd ?rest)"
  from assms have d: "distinct result" and sub: "set result \<subseteq> set ?groups"
    and len: "length result = min 10 (length ?groups)"
    and srt: "sorted_wrt (\<lambda>a b. snd b \<le> snd a) result"
    and low: "\<forall>g\<in>set ?groups. g \<in> set result \<or> (\<forall>e\<in>set result. snd g \<le> snd e)"
    by (auto simp: top_locations_check_def Let_def list_all_iff)
  have dg: "distinct ?groups" by (rule location_counts_distinct_pairs)
  have df: "distinct (filter (\<lambda>g. g \<in> set result) ?groups)"
    using dg by simp
  have "set (filter (\<lambda>g. g \<in> set result) ?groups) = set result"
    using sub by auto
  with set_eq_iff_mset_eq_distinct [OF df d]
  have A: "mset (filter (\<lambda>g. g \<in> set result) ?groups) = mset result"
    by blast
  have B: "mset ?groups = mset (filter (\<lambda>g. g \<in> set result) ?groups) + mset ?rest"
    by (induction ?groups) simp_all
  have "mset ?ordered = mset result + mset ?rest" by simp
  also have "\<dots> = mset (filter (\<lambda>g. g \<in> set result) ?groups) + mset ?rest"
    by (metis A)
  also have "\<dots> = mset ?groups"
    by (metis B)
  finally have m: "mset ?ordered = mset ?groups" .
  have "sorted (map snd (sort_key snd ?rest))" by (rule sorted_sort_key)
  then have sr: "sorted_wrt (\<lambda>a b. snd b \<le> snd a) (rev (sort_key snd ?rest))"
    by (simp add: sorted_wrt_rev sorted_map)
  have cross: "\<forall>x\<in>set result. \<forall>y\<in>set (rev (sort_key snd ?rest)). snd y \<le> snd x"
  proof (intro ballI)
    fix x y assume x: "x \<in> set result" and "y \<in> set (rev (sort_key snd ?rest))"
    then have "y \<in> set ?groups" "y \<notin> set result" by simp_all
    with low x show "snd y \<le> snd x" by blast
  qed
  have s: "sorted_wrt (\<lambda>a b. snd b \<le> snd a) ?ordered"
    using srt sr cross by (simp add: sorted_wrt_append)
  have t: "take 10 ?ordered = result"
  proof (cases "length ?groups \<le> 10")
    case True
    with len have "length result = length ?groups" by simp
    then have "card (set result) = card (set ?groups)"
      using d dg by (simp add: distinct_card)
    with sub have "set result = set ?groups"
      by (simp add: card_subset_eq)
    then have "?rest = []" by (simp add: filter_empty_conv)
    with len True show ?thesis by simp
  next
    case False
    with len have "length result = 10" by simp
    then show ?thesis by simp
  qed
  from m s t show ?thesis
    unfolding top_locations_answer_def by (intro exI [of _ ?ordered]) simp
qed

lemma top_locations_check_complete:
  assumes "top_locations_answer rows result"
  shows "top_locations_check rows result"
proof -
  let ?groups = "location_counts rows"
  from assms obtain ordered where m: "mset ordered = mset ?groups"
    and s: "sorted_wrt (\<lambda>a b. snd b \<le> snd a) ordered"
    and r: "result = take 10 ordered"
    unfolding top_locations_answer_def by blast
  have dg: "distinct ?groups" by (rule location_counts_distinct_pairs)
  from m dg have dord: "distinct ordered" by (metis mset_eq_imp_distinct_iff)
  from m have set_eq: "set ordered = set ?groups" by (rule mset_eq_setD)
  from m have len: "length ordered = length ?groups" by (rule mset_eq_length)
  have 1: "distinct result" using r dord by (simp add: distinct_take)
  have 2: "\<forall>e\<in>set result. e \<in> set ?groups"
    using r set_eq by (auto dest: in_set_takeD)
  have 3: "length result = min 10 (length ?groups)"
    using r len by (simp add: min.commute)
  have 4: "sorted_wrt (\<lambda>a b. snd b \<le> snd a) result"
    using r s by (simp add: sorted_wrt_take)
  have "sorted_wrt (\<lambda>a b. snd b \<le> snd a) (take 10 ordered @ drop 10 ordered)"
    using s by simp
  then have cross: "\<forall>x\<in>set (take 10 ordered). \<forall>y\<in>set (drop 10 ordered). snd y \<le> snd x"
    unfolding sorted_wrt_append by blast
  have 5: "\<forall>g\<in>set ?groups. g \<in> set result \<or> (\<forall>e\<in>set result. snd g \<le> snd e)"
  proof
    fix g assume "g \<in> set ?groups"
    moreover have "set ordered = set (take 10 ordered) \<union> set (drop 10 ordered)"
      by (metis append_take_drop_id set_append)
    ultimately have "g \<in> set (take 10 ordered) \<or> g \<in> set (drop 10 ordered)"
      using set_eq by blast
    with cross r show "g \<in> set result \<or> (\<forall>e\<in>set result. snd g \<le> snd e)" by blast
  qed
  from 1 2 3 4 5 show ?thesis
    by (simp add: top_locations_check_def Let_def list_all_iff)
qed

lemma top_locations_iff_check: "top_locations_answer rows result \<longleftrightarrow> top_locations_check rows result"
  using top_locations_check_sound top_locations_check_complete by blast

lemma row_at_location [simp]: "row_location (row_at l) = l"
  by (simp add: row_at_def insert_row_def)






section \<open>Properties of the orchestrator\<close>










end
